theory Spec2Isabelle
  imports Main "HOL-Library.Word"
begin

unbundle bit_operations_syntax

section \<open>Machine types\<close>

type_synonym u8 = "8 word"
type_synonym u16 = "16 word"
type_synonym u32 = "32 word"
type_synonym addr = "64 word"

text \<open>
  What the code does not return from: the \<open>PELOTON_ASSERT\<close> of \<open>ComputeTupleSize\<close>,
  the integer division by zero of \<open>NumSlots\<close>, and an index outside
  \<open>attr_sizes_\<close>, which \<open>std::vector\<close> does not check.
\<close>

datatype error = AssertionFailed | DivisionByZero | IndexOutOfBounds

section \<open>BlockLayout\<close>

record BlockLayout =
  num_attrs :: u16
  attr_sizes :: "u8 list"
  tuple_size :: u32
  header_size :: u32
  num_slots :: u32

text \<open>
  \<open>ComputeTupleSize\<close>: the assertion \<open>num_attrs_ == attr_sizes_.size()\<close>, then the
  loop \<open>result += size\<close> over the sizes, in \<open>uint32_t\<close>.
\<close>

definition ComputeTupleSize :: "u16 \<Rightarrow> u8 list \<Rightarrow> error + u32" where
  "ComputeTupleSize n sizes =
     (if unat n \<noteq> length sizes then Inl AssertionFailed
      else Inr (fold (\<lambda>size result. result + ucast size) sizes 0))"

text \<open>
  \<open>HeaderSize\<close>: the sum is computed in \<open>size_t\<close> (the type of \<open>sizeof\<close>) and
  converted to the \<open>uint32_t\<close> result.
\<close>

definition HeaderSize :: "u16 \<Rightarrow> u32" where
  "HeaderSize n =
     ucast ((4 * 3 + ucast n * 4 + 2 + ucast n * 1) :: 64 word)"

text \<open>
  \<open>NumSlots\<close>: \<open>8 * (BLOCK_SIZE - header_size_) / (8 * tuple_size_ + num_attrs_) - 1\<close>
  in \<open>uint32_t\<close>. \<open>Constants::BLOCK_SIZE\<close> (storage/storage_defs.h) is not among the
  sources and is the first parameter. A zero divisor is a failure, not HOL's \<open>0\<close>.
\<close>

definition NumSlots :: "u32 \<Rightarrow> u32 \<Rightarrow> u32 \<Rightarrow> u16 \<Rightarrow> error + u32" where
  "NumSlots BLOCK_SIZE hdr tup n =
     (let d = 8 * tup + ucast n
      in if d = 0 then Inl DivisionByZero
         else Inr (8 * (BLOCK_SIZE - hdr) div d - 1))"

text \<open>The constructor initialises the members in the order of their declaration.\<close>

definition mk_BlockLayout :: "u32 \<Rightarrow> u16 \<Rightarrow> u8 list \<Rightarrow> error + BlockLayout" where
  "mk_BlockLayout BLOCK_SIZE n sizes =
     (case ComputeTupleSize n sizes of
        Inl e \<Rightarrow> Inl e
      | Inr tup \<Rightarrow>
          (let hdr = HeaderSize n in
           case NumSlots BLOCK_SIZE hdr tup n of
             Inl e \<Rightarrow> Inl e
           | Inr slots \<Rightarrow>
               Inr \<lparr>num_attrs = n, attr_sizes = sizes, tuple_size = tup,
                    header_size = hdr, num_slots = slots\<rparr>))"

text \<open>
  Modelled from the spec: \<open>BitmapSize\<close> (common/concurrent_bitmap.h) is not among the
  sources. The spec gives the bitmap of a mini-block \<open>ceil(slot_count / 8)\<close> bytes
  (one bit per slot, padded to a whole byte).
\<close>

definition BitmapSize :: "u32 \<Rightarrow> u32" where
  "BitmapSize n = (if n mod 8 = 0 then n div 8 else n div 8 + 1)"

section \<open>Raw memory\<close>

text \<open>
  A \<open>RawBlock *\<close> is an address, and the block's fields are read from and written to
  byte-addressed memory. Multi-byte fields are little-endian (the project builds for
  x86-64), and the structures are packed.
\<close>

type_synonym heap = "addr \<Rightarrow> u8"

definition load16 :: "heap \<Rightarrow> addr \<Rightarrow> u16" where
  "load16 h a = ucast (h a) OR push_bit 8 (ucast (h (a + 1)))"

definition load32 :: "heap \<Rightarrow> addr \<Rightarrow> u32" where
  "load32 h a =
     ucast (h a) OR push_bit 8 (ucast (h (a + 1))) OR
     push_bit 16 (ucast (h (a + 2))) OR push_bit 24 (ucast (h (a + 3)))"

definition store8 :: "heap \<Rightarrow> addr \<Rightarrow> u8 \<Rightarrow> heap" where
  "store8 h a v = h(a := v)"

definition store16 :: "heap \<Rightarrow> addr \<Rightarrow> u16 \<Rightarrow> heap" where
  "store16 h a v = h(a := ucast v, a + 1 := ucast (drop_bit 8 v))"

definition store32 :: "heap \<Rightarrow> addr \<Rightarrow> u32 \<Rightarrow> heap" where
  "store32 h a v =
     h(a := ucast v, a + 1 := ucast (drop_bit 8 v),
       a + 2 := ucast (drop_bit 16 v), a + 3 := ucast (drop_bit 24 v))"

section \<open>RawConcurrentBitmap\<close>

text \<open>
  Modelled from the spec: \<open>RawConcurrentBitmap\<close> (common/concurrent_bitmap.h) is not
  among the sources. The spec gives its interface: over an array of bits indexed from
  0 and byte padded, \<open>test(i)\<close> returns the current value of bit \<open>i\<close> without side
  effects, and an atomic conditional flip takes a position and a desired boolean value,
  changes the bit to the desired value and reports success only if the bit's prior
  value differed from the desired value, and otherwise leaves the bit unchanged and
  reports a no-op. A bit that differs from the desired value takes it by being flipped.
  The spec leaves the place of a bit in its byte open: here bit \<open>pos\<close> is bit
  \<open>pos mod 8\<close> of byte \<open>pos div 8\<close>. Each call is one atomic step on the memory.

  The comments at the call sites in this file (\<open>Noop if not null\<close> at
  \<open>Flip(pos, false)\<close>, \<open>Noop if already null\<close> at \<open>Flip(pos, true)\<close>) read the flag as
  the value the bit is tested for; the spec notes that they do not obviously agree with
  its convention and leaves the encoding to the bitmap's own contract. The theorem on
  \<open>Allocate\<close> uses of \<open>Flip\<close> only that a call that reports a no-op leaves the memory
  as it was, which holds for both readings.
\<close>

definition Test :: "heap \<Rightarrow> addr \<Rightarrow> u32 \<Rightarrow> bool" where
  "Test h bitmap pos = bit (h (bitmap + ucast (pos div 8))) (unat (pos mod 8))"

definition Flip :: "heap \<Rightarrow> addr \<Rightarrow> u32 \<Rightarrow> bool \<Rightarrow> bool \<times> heap" where
  "Flip h bitmap pos desired_val =
     (let element = bitmap + ucast (pos div 8) in
      if Test h bitmap pos \<noteq> desired_val
      then (True, h(element := h element XOR push_bit (unat (pos mod 8)) 1))
      else (False, h))"

section \<open>MiniBlock and Block\<close>

text \<open>
  \<open>MiniBlock\<close> has the single member \<open>varlen_contents_\<close> at offset 0.
  \<open>ColumnStart\<close> is \<open>varlen_contents_ + BitmapSize(layout.num_slots_)\<close>.
\<close>

definition MiniBlock_ColumnStart :: "BlockLayout \<Rightarrow> addr \<Rightarrow> addr" where
  "MiniBlock_ColumnStart layout mb = mb + ucast (BitmapSize (num_slots layout))"

definition MiniBlock_NullBitmap :: "addr \<Rightarrow> addr" where
  "MiniBlock_NullBitmap mb = mb"

text \<open>
  The packed \<open>Block\<close> has \<open>block_id_\<close> at offset 0 and \<open>num_records_\<close> at offset 4
  (32-bit fields, as the comment on the header layout says), and \<open>varlen_contents_\<close> at
  offset 8. The accessors below return the address of what the C++ accessor returns a
  reference or pointer to.
\<close>

definition Block_NumSlots :: "addr \<Rightarrow> addr" where
  "Block_NumSlots blk = blk + 8"

definition AttrOffets :: "addr \<Rightarrow> addr" where
  "AttrOffets blk = Block_NumSlots blk + 4"

text \<open>\<open>AttrOffets()[i]\<close>: the 32-bit value at index \<open>i\<close> of the offsets.\<close>

definition AttrOffets_index :: "heap \<Rightarrow> addr \<Rightarrow> u16 \<Rightarrow> u32" where
  "AttrOffets_index h blk i = load32 h (AttrOffets blk + 4 * ucast i)"

definition Column :: "heap \<Rightarrow> addr \<Rightarrow> u16 \<Rightarrow> addr" where
  "Column h blk offset = blk + ucast (AttrOffets_index h blk offset)"

text \<open>
  \<open>NumAttrs\<close> is \<open>*reinterpret_cast<uint16_t *>(AttrOffets()[layout.num_attrs_])\<close>: the
  32-bit value read at index \<open>num_attrs_\<close> of the offsets is converted to the pointer.
  \<open>AttrSizes\<close> is \<open>reinterpret_cast<uint8_t *>(NumAttrs(layout) + 1)\<close>: the 16-bit value
  read through that reference, promoted to \<open>int\<close>, plus 1, is converted to the pointer.
\<close>

definition NumAttrs :: "heap \<Rightarrow> BlockLayout \<Rightarrow> addr \<Rightarrow> addr" where
  "NumAttrs h layout blk = ucast (AttrOffets_index h blk (num_attrs layout))"

definition AttrSizes :: "heap \<Rightarrow> BlockLayout \<Rightarrow> addr \<Rightarrow> addr" where
  "AttrSizes h layout blk =
     ucast ((ucast (load16 h (NumAttrs h layout blk)) :: u32) + 1)"

section \<open>InitializeRawBlock\<close>

text \<open>
  Modelled from the spec: \<open>InitializeRawBlock\<close> is declared in this header and defined
  in a file that is not among the sources. The spec's initialization contract: write
  \<open>block_id\<close> into the header; leave \<open>record_count\<close> at 0; write \<open>slot_count\<close> from the
  layout; write each column's \<open>attribute_offsets[i]\<close> walking the columns in order, the
  first mini-block immediately after the header and mini-block \<open>i\<close> immediately after
  mini-block \<open>i - 1\<close>, a mini-block being \<open>ceil(slot_count / 8)\<close> bitmap bytes and
  \<open>slot_count * attribute_size\<close> value bytes; write \<open>attribute_count\<close> and
  \<open>attribute_sizes\<close>, at the places the comment on the header layout gives them: the
  16-bit count after the offsets, the sizes after the count.
\<close>

fun write_attr_offsets :: "BlockLayout \<Rightarrow> addr \<Rightarrow> u32 \<Rightarrow> u8 list \<Rightarrow> heap \<Rightarrow> heap" where
  "write_attr_offsets layout p off [] h = h"
| "write_attr_offsets layout p off (attr_size # sizes) h =
     write_attr_offsets layout (p + 4)
       (off + BitmapSize (num_slots layout) + num_slots layout * ucast attr_size) sizes
       (store32 h p off)"

fun write_attr_sizes :: "addr \<Rightarrow> u8 list \<Rightarrow> heap \<Rightarrow> heap" where
  "write_attr_sizes p [] h = h"
| "write_attr_sizes p (attr_size # sizes) h =
     write_attr_sizes (p + 1) sizes (store8 h p attr_size)"

definition InitializeRawBlock :: "heap \<Rightarrow> addr \<Rightarrow> BlockLayout \<Rightarrow> u32 \<Rightarrow> heap" where
  "InitializeRawBlock h raw layout block_id =
     (let h1 = store32 h raw block_id;
          h2 = store32 h1 (Block_NumSlots raw) (num_slots layout);
          h3 = write_attr_offsets layout (AttrOffets raw) (header_size layout)
                 (attr_sizes layout) h2;
          count = AttrOffets raw + 4 * ucast (num_attrs layout);
          h4 = store16 h3 count (num_attrs layout)
      in write_attr_sizes (count + 2) (attr_sizes layout) h4)"

section \<open>TupleAccessStrategy\<close>

definition ColumnNullBitmap :: "heap \<Rightarrow> addr \<Rightarrow> u16 \<Rightarrow> addr" where
  "ColumnNullBitmap h block column_offset =
     MiniBlock_NullBitmap (Column h block column_offset)"

definition ColumnStart :: "BlockLayout \<Rightarrow> heap \<Rightarrow> addr \<Rightarrow> u16 \<Rightarrow> addr" where
  "ColumnStart layout h block column_offset =
     MiniBlock_ColumnStart layout (Column h block column_offset)"

text \<open>
  \<open>layout_.attr_sizes_[column_offset] * pos\<close> is a \<open>uint32_t\<close> product, added to the
  pointer. The vector is indexed without a check: an index out of its range is an
  error of the model. A \<open>nullptr\<close> result is \<open>None\<close>.
\<close>

definition attr_offset :: "BlockLayout \<Rightarrow> u16 \<Rightarrow> u32 \<Rightarrow> error + addr" where
  "attr_offset layout column_offset pos =
     (if unat column_offset < length (attr_sizes layout)
      then Inr (ucast (ucast (attr_sizes layout ! unat column_offset) * pos :: u32))
      else Inl IndexOutOfBounds)"

definition AccessWithNullCheck ::
  "BlockLayout \<Rightarrow> heap \<Rightarrow> addr \<Rightarrow> u16 \<Rightarrow> u32 \<Rightarrow> error + addr option" where
  "AccessWithNullCheck layout h block column_offset pos =
     (if \<not> Test h (ColumnNullBitmap h block column_offset) pos then Inr None
      else case attr_offset layout column_offset pos of
             Inl e \<Rightarrow> Inl e
           | Inr d \<Rightarrow> Inr (Some (ColumnStart layout h block column_offset + d)))"

definition AccessForceNotNull ::
  "BlockLayout \<Rightarrow> heap \<Rightarrow> addr \<Rightarrow> u16 \<Rightarrow> u32 \<Rightarrow> error + addr \<times> heap" where
  "AccessForceNotNull layout h block column_offset pos =
     (let h' = snd (Flip h (ColumnNullBitmap h block column_offset) pos False) in
      case attr_offset layout column_offset pos of
        Inl e \<Rightarrow> Inl e
      | Inr d \<Rightarrow> Inr (ColumnStart layout h' block column_offset + d, h'))"

definition SetNull :: "heap \<Rightarrow> addr \<Rightarrow> u16 \<Rightarrow> u32 \<Rightarrow> heap" where
  "SetNull h block column_offset pos =
     snd (Flip h (ColumnNullBitmap h block column_offset) pos True)"

text \<open>
  \<open>Allocate\<close>: the bitmap pointer is computed once, then the loop over
  \<open>i = 0, ..., num_slots_ - 1\<close> returns at the first successful \<open>Flip(i, false)\<close>. The
  result is the returned flag, the value of the \<open>offset\<close> reference after the call and
  the memory after the call.
\<close>

function Allocate_loop ::
  "u32 \<Rightarrow> addr \<Rightarrow> heap \<Rightarrow> u32 \<Rightarrow> u32 \<Rightarrow> bool \<times> u32 \<times> heap" where
  "Allocate_loop n bitmap h i offset =
     (if i < n
      then (case Flip h bitmap i False of
              (True, h') \<Rightarrow> (True, i, h')
            | (False, h') \<Rightarrow> Allocate_loop n bitmap h' (i + 1) offset)
      else (False, offset, h))"
  by pat_completeness auto
termination
proof (relation "measure (\<lambda>(n, bitmap, h, i, offset). unat n - unat i)")
  show "wf (measure (\<lambda>(n, bitmap, h, i, offset). unat n - unat i))" by simp
next
  fix n :: u32 and bitmap :: addr and h :: heap and i offset :: u32
    and x :: "bool \<times> heap" and x1 :: bool and h' :: heap
  assume lt: "i < n"
  then have less: "unat i < unat n" by (simp add: word_less_nat_alt)
  have "unat n < 2 ^ 32" using unsigned_less [of n] by simp
  with less have "unat (i + 1) = unat i + 1"
    by (simp add: unat_word_ariths)
  with less show "((n, bitmap, h', i + 1, offset), (n, bitmap, h, i, offset))
      \<in> measure (\<lambda>(n, bitmap, h, i, offset). unat n - unat i)"
    by simp
qed

declare Allocate_loop.simps [simp del]

definition PRIMARY_KEY_OFFSET :: u16 where
  "PRIMARY_KEY_OFFSET = 0"

definition Allocate :: "BlockLayout \<Rightarrow> heap \<Rightarrow> addr \<Rightarrow> u32 \<Rightarrow> bool \<times> u32 \<times> heap" where
  "Allocate layout h block offset =
     Allocate_loop (num_slots layout) (ColumnNullBitmap h block PRIMARY_KEY_OFFSET) h 0 offset"

section \<open>Example blocks\<close>

text \<open>
  The layout of two attributes of 8 and 4 bytes in a block of 1 MB, and a zero-filled
  block at address \<open>0x10000\<close> initialized for it with block id 7.
\<close>

definition example_layout :: BlockLayout where
  "example_layout =
     \<lparr>num_attrs = 2, attr_sizes = [8, 4], tuple_size = 12,
      header_size = 24, num_slots = 85595\<rparr>"

definition example_block :: heap where
  "example_block = InitializeRawBlock (\<lambda>a. 0) 65536 example_layout 7"

text \<open>
  The layout of one attribute of 1 byte in a block of 23 bytes, which has 2 slots, and a
  zero-filled block at address \<open>0x10000\<close> initialized for it.
\<close>

definition two_slot_layout :: BlockLayout where
  "two_slot_layout =
     \<lparr>num_attrs = 1, attr_sizes = [1], tuple_size = 1, header_size = 19, num_slots = 2\<rparr>"

definition two_slot_block :: heap where
  "two_slot_block = InitializeRawBlock (\<lambda>a. 0) 65536 two_slot_layout 7"

text \<open>
  The layout of 5000 attributes of 255 bytes in a block of 1 MB: one tuple does not fit
  in the block, the quotient of \<open>NumSlots\<close> is 0 and \<open>num_slots_\<close> is \<open>0 - 1\<close> in
  \<open>uint32_t\<close>. And a zero-filled block at address \<open>0x10000\<close> initialized for it.
\<close>

definition wide_layout :: BlockLayout where
  "wide_layout =
     \<lparr>num_attrs = 5000, attr_sizes = replicate 5000 255, tuple_size = 1275000,
      header_size = 25014, num_slots = 4294967295\<rparr>"

definition wide_block :: heap where
  "wide_block = InitializeRawBlock (\<lambda>a. 0) 65536 wide_layout 7"

section \<open>Layout arithmetic\<close>

lemma unat_u8_lt: "unat (x :: u8) < 256"
  using unsigned_less [of x] by simp

lemma unat_u16_lt: "unat (x :: u16) < 65536"
  using unsigned_less [of x] by simp

lemma unat_u32_lt: "unat (x :: u32) < 4294967296"
  using unsigned_less [of x] by simp

lemma fold_tuple_size:
  "fold (\<lambda>size result. result + ucast size) sizes (a :: u32)
     = a + of_nat (sum_list (map unat (sizes :: u8 list)))"
  by (induction sizes arbitrary: a) (simp_all add: add.assoc)

lemma sum_sizes_le: "sum_list (map unat (sizes :: u8 list)) \<le> 255 * length sizes"
proof (induction sizes)
  case Nil
  show ?case by simp
next
  case (Cons s sizes)
  have "unat s < 256" by (rule unat_u8_lt)
  with Cons show ?case by simp
qed

lemma sum_sizes_ge:
  "\<forall>s \<in> set sizes. 1 \<le> unat s \<Longrightarrow> length sizes \<le> sum_list (map unat (sizes :: u8 list))"
  by (induction sizes) auto

lemma unat_ucast_u8_u32: "unat (ucast (x :: u8) :: u32) = unat x"
  using unat_u8_lt [of x] by (simp add: unsigned_ucast_eq take_bit_nat_eq_self)

lemma unat_ucast_u16_u32: "unat (ucast (x :: u16) :: u32) = unat x"
  using unat_u16_lt [of x] by (simp add: unsigned_ucast_eq take_bit_nat_eq_self)

lemma unat_ucast_u16_u64: "unat (ucast (x :: u16) :: 64 word) = unat x"
  using unat_u16_lt [of x] by (simp add: unsigned_ucast_eq take_bit_nat_eq_self)

lemma ComputeTupleSize_unat:
  assumes "ComputeTupleSize n sizes = Inr tup"
  shows "unat tup = sum_list (map unat sizes)" and "length sizes = unat n"
proof -
  from assms have len: "unat n = length sizes"
    and tup: "tup = of_nat (sum_list (map unat sizes))"
    by (auto simp: ComputeTupleSize_def fold_tuple_size split: if_splits)
  have "unat n < 65536" by (rule unat_u16_lt)
  with len sum_sizes_le [of sizes] have "sum_list (map unat sizes) < 2 ^ 32" by simp
  then show "unat tup = sum_list (map unat sizes)"
    unfolding tup by (simp add: unat_of_nat take_bit_nat_eq_self)
  from len show "length sizes = unat n" by simp
qed

lemma HeaderSize_unat: "unat (HeaderSize n) = 3 * 4 + unat n * 4 + 2 + unat n * 1"
proof -
  have n: "unat n < 65536" by (rule unat_u16_lt)
  have "unat (4 * 3 + ucast n * 4 + 2 + ucast n * 1 :: 64 word) = 14 + unat n * 5"
    using n by (simp add: unat_word_ariths unat_ucast_u16_u64)
  then have "unat (HeaderSize n) = take_bit 32 (14 + unat n * 5)"
    unfolding HeaderSize_def by (simp add: unsigned_ucast_eq)
  also have "\<dots> = 14 + unat n * 5"
    using n by (simp add: take_bit_nat_eq_self)
  finally show ?thesis by simp
qed

lemma ceil8_aux:
  "r < 8 \<Longrightarrow> (8 * q + r + 7) div 8 = (if r = 0 then q else q + 1)" for q r :: nat
proof (cases "r = 0")
  case True
  then show ?thesis by simp
next
  case False
  assume "r < 8"
  with False obtain r' where r': "r = Suc r'" "r' < 7" by (cases r) auto
  have "8 * q + r + 7 = r' + (q + 1) * 8" unfolding r' by simp
  then have "(8 * q + r + 7) div 8 = q + 1" using r' by (simp only: div_mult_self1)
  with False show ?thesis by simp
qed

lemma ceil8: "(k + 7) div 8 = (if k mod 8 = 0 then k div 8 else k div 8 + 1)" for k :: nat
  using ceil8_aux [of "k mod 8" "k div 8"] by simp

lemma BitmapSize_unat: "unat (BitmapSize n) = (unat n + 7) div 8"
proof -
  have n: "unat n < 2 ^ 32" using unat_u32_lt [of n] by simp
  have d: "unat (n div 8) = unat n div 8" by (simp add: unat_div)
  have m: "(n mod 8 = 0) = (unat n mod 8 = 0)"
    by (simp add: word_unat_eq_iff unat_mod)
  have "unat (n div 8) + unat (1 :: u32) < 2 ^ LENGTH(32)"
    using n d by simp
  then have s: "unat (n div 8 + 1) = unat n div 8 + 1"
    using d by (simp only: unat_add_lem [THEN iffD1] unat_1)
  show ?thesis
  proof (cases "unat n mod 8 = 0")
    case True
    then show ?thesis unfolding BitmapSize_def ceil8 m using d by simp
  next
    case False
    then show ?thesis unfolding BitmapSize_def ceil8 m using s by simp
  qed
qed

lemma NumSlots_unat:
  assumes ns: "NumSlots B hdr tup n = Inr slots"
    and hb: "unat hdr \<le> unat B"
    and nowrap: "8 * (unat B - unat hdr) < 2 ^ 32"
    and dwrap: "8 * unat tup + unat n < 2 ^ 32"
    and fits: "8 * unat tup + unat n \<le> 8 * (unat B - unat hdr)"
  shows "unat slots + 1 = 8 * (unat B - unat hdr) div (8 * unat tup + unat n)"
proof -
  let ?d = "8 * tup + ucast n :: u32"
  from ns have d0: "?d \<noteq> 0" and s: "slots = 8 * (B - hdr) div ?d - 1"
    by (auto simp: NumSlots_def Let_def split: if_splits)
  have sub: "unat (B - hdr) = unat B - unat hdr"
    using hb by (simp add: unat_sub word_le_nat_alt)
  have num: "unat (8 * (B - hdr)) = 8 * (unat B - unat hdr)"
    using unat_mult_lem [of 8 "B - hdr"] nowrap sub by simp
  have den: "unat ?d = 8 * unat tup + unat n"
    using dwrap by (simp add: unat_word_ariths unat_ucast_u16_u32)
  have q: "unat (8 * (B - hdr) div ?d) = 8 * (unat B - unat hdr) div (8 * unat tup + unat n)"
    by (simp only: unat_div num den)
  from d0 den have dpos: "0 < 8 * unat tup + unat n"
    by (metis unat_eq_zero neq0_conv)
  with fits have q1: "1 \<le> 8 * (unat B - unat hdr) div (8 * unat tup + unat n)"
    by (simp add: div_greater_zero_iff Suc_le_eq)
  with q have "8 * (B - hdr) div ?d \<noteq> 0"
    by (metis unat_0 not_one_le_zero)
  then have "unat slots = unat (8 * (B - hdr) div ?d) - 1"
    unfolding s by (rule unat_minus_one)
  with q q1 show ?thesis by simp
qed

lemma sum_miniblocks:
  "(\<Sum>s\<leftarrow>sizes. c + k * unat (s :: u8)) = length sizes * c + k * sum_list (map unat sizes)"
  by (induction sizes) (simp_all add: algebra_simps)

lemma mk_BlockLayout_fields:
  assumes "mk_BlockLayout B n sizes = Inr L"
  shows "ComputeTupleSize n sizes = Inr (tuple_size L)"
    and "header_size L = HeaderSize n"
    and "NumSlots B (header_size L) (tuple_size L) n = Inr (num_slots L)"
    and "num_attrs L = n" and "attr_sizes L = sizes"
  using assms
  by (auto simp: mk_BlockLayout_def Let_def split: sum.splits)

lemma mk_BlockLayout_slots:
  assumes mk: "mk_BlockLayout B n sizes = Inr L"
    and hb: "unat (header_size L) \<le> unat B"
    and nowrap: "8 * (unat B - unat (header_size L)) < 2 ^ 32"
    and fits: "8 * unat (tuple_size L) + length sizes
                 \<le> 8 * (unat B - unat (header_size L))"
  shows "unat (num_slots L) + 1
           = 8 * (unat B - unat (header_size L)) div (8 * unat (tuple_size L) + length sizes)"
proof -
  note f = mk_BlockLayout_fields [OF mk]
  have len: "length sizes = unat n" by (rule ComputeTupleSize_unat(2) [OF f(1)])
  have "8 * unat (tuple_size L) + unat n < 2 ^ 32"
    using fits nowrap len by simp
  from NumSlots_unat [OF f(3) hb nowrap this] fits len show ?thesis by simp
qed

section \<open>The layout calculator\<close>

text \<open>
  C4 (as amended). For every layout the constructor builds, \<open>tuple_size\<close> is the sum of
  the attribute sizes and \<open>header_size\<close> is \<open>3 * 4 + N * 4 + 2 + N * 1\<close>. When the
  header fits in the block, \<open>8 * (BLOCK_SIZE - header_size)\<close> fits in 32 bits and a
  slot's \<open>8 * tuple_size + N\<close> bits are at most that many (the quotient is at least
  1), \<open>slot_count\<close> is \<open>floor (8 * (BLOCK_SIZE - header_size) / (8 * tuple_size + N)) - 1\<close>.
\<close>

theorem layout_calculator:
  "mk_BlockLayout B n sizes = Inr L \<Longrightarrow>
     unat (tuple_size L) = sum_list (map unat sizes) \<and>
     unat (header_size L) = 3 * 4 + length sizes * 4 + 2 + length sizes * 1 \<and>
     (header_size L \<le> B \<and> 8 * (unat B - unat (header_size L)) < 2 ^ 32 \<and>
      8 * unat (tuple_size L) + length sizes \<le> 8 * (unat B - unat (header_size L)) \<longrightarrow>
        uint (num_slots L)
          = 8 * (uint B - uint (header_size L))
              div (8 * uint (tuple_size L) + int (length sizes)) - 1)"
proof -
  assume mk: "mk_BlockLayout B n sizes = Inr L"
  note f = mk_BlockLayout_fields [OF mk]
  have len: "length sizes = unat n" by (rule ComputeTupleSize_unat(2) [OF f(1)])
  have t: "unat (tuple_size L) = sum_list (map unat sizes)"
    by (rule ComputeTupleSize_unat(1) [OF f(1)])
  have h: "unat (header_size L) = 3 * 4 + length sizes * 4 + 2 + length sizes * 1"
    unfolding f(2) len by (rule HeaderSize_unat)
  have s: "uint (num_slots L)
          = 8 * (uint B - uint (header_size L))
              div (8 * uint (tuple_size L) + int (length sizes)) - 1"
    if hb: "header_size L \<le> B"
      and nowrap: "8 * (unat B - unat (header_size L)) < 2 ^ 32"
      and fits: "8 * unat (tuple_size L) + length sizes
                   \<le> 8 * (unat B - unat (header_size L))"
  proof -
    from hb have hb': "unat (header_size L) \<le> unat B" by (simp add: word_le_nat_alt)
    have "int (unat (num_slots L)) + 1
            = int (8 * (unat B - unat (header_size L))
                     div (8 * unat (tuple_size L) + length sizes))"
      using mk_BlockLayout_slots [OF mk hb' nowrap fits] by linarith
    also have "\<dots> = 8 * (uint B - uint (header_size L))
                      div (8 * uint (tuple_size L) + int (length sizes))"
      using hb' by (simp add: zdiv_int of_nat_diff)
    finally show ?thesis by simp
  qed
  from t h s show ?thesis by blast
qed

text \<open>
  C5 (as amended). For every layout with attribute sizes of at least 1, \<open>tuple_size\<close>
  at least 1 and \<open>header_size < BLOCK_SIZE\<close>, such that moreover
  \<open>8 * (BLOCK_SIZE - header_size)\<close> fits in 32 bits and the quotient of \<open>NumSlots\<close>
  is at least 1, the header and the mini-blocks (byte-padded bitmap plus value array
  for each column) fit in the block.
\<close>

theorem geometry_fits:
  assumes mk: "mk_BlockLayout B n sizes = Inr L"
    and sz: "\<forall>s \<in> set sizes. 1 \<le> unat s"
    and tup: "1 \<le> unat (tuple_size L)"
    and hb: "header_size L < B"
    and nowrap: "8 * (unat B - unat (header_size L)) < 2 ^ 32"
    and fits: "8 * unat (tuple_size L) + length sizes
                 \<le> 8 * (unat B - unat (header_size L))"
  shows "unat (header_size L)
           + (\<Sum>s\<leftarrow>sizes. unat (BitmapSize (num_slots L)) + unat (num_slots L) * unat s)
         \<le> unat B"
proof -
  note f = mk_BlockLayout_fields [OF mk]
  let ?S = "unat (num_slots L)" and ?T = "unat (tuple_size L)" and ?N = "length sizes"
  let ?R = "unat B - unat (header_size L)" and ?c = "unat (BitmapSize (num_slots L))"
  from hb have hb': "unat (header_size L) \<le> unat B" by (simp add: word_less_nat_alt)
  have t: "?T = sum_list (map unat sizes)" by (rule ComputeTupleSize_unat(1) [OF f(1)])
  have nt: "?N \<le> ?T" unfolding t by (rule sum_sizes_ge [OF sz])
  have "(?S + 1) * (8 * ?T + ?N) \<le> 8 * ?R"
    unfolding mk_BlockLayout_slots [OF mk hb' nowrap fits] by simp
  then have slots: "?S * (8 * ?T + ?N) + 8 * ?T + ?N \<le> 8 * ?R" by (simp add: algebra_simps)
  have "8 * ?c \<le> ?S + 7" unfolding BitmapSize_unat by simp
  then have "?N * (8 * ?c) \<le> ?N * (?S + 7)" by (rule mult_le_mono2)
  then have "8 * (?N * ?c + ?S * ?T) \<le> ?S * (8 * ?T + ?N) + 7 * ?N"
    by (simp add: algebra_simps)
  also have "\<dots> \<le> 8 * ?R" using slots nt by linarith
  finally have "?N * ?c + ?S * ?T \<le> ?R" by simp
  then show ?thesis
    unfolding sum_miniblocks t [symmetric] using hb' by linarith
qed

theorem layout_calculator_witness:
  "mk_BlockLayout 1048576 2 [8, 4]
     = Inr \<lparr>num_attrs = 2, attr_sizes = [8, 4], tuple_size = 12,
            header_size = 24, num_slots = 85595\<rparr> \<and>
   (24 :: u32) \<le> 1048576 \<and> 8 * (unat (1048576 :: u32) - unat (24 :: u32)) < 2 ^ 32 \<and>
   8 * unat (12 :: u32) + length [8, 4 :: u8] \<le> 8 * (unat (1048576 :: u32) - unat (24 :: u32)) \<and>
   uint (85595 :: u32) = 8 * (uint (1048576 :: u32) - uint (24 :: u32))
                            div (8 * uint (12 :: u32) + int (length [8, 4 :: u8])) - 1"
proof -
  have mk: "mk_BlockLayout 1048576 2 [8, 4]
     = Inr \<lparr>num_attrs = 2, attr_sizes = [8, 4], tuple_size = 12,
            header_size = 24, num_slots = 85595\<rparr>"
    by (simp add: mk_BlockLayout_def ComputeTupleSize_def HeaderSize_def NumSlots_def)
  from layout_calculator [OF mk] mk show ?thesis by simp
qed

theorem layout_calculator_counterexample:
  "mk_BlockLayout 1048576 5000 (replicate 5000 255)
     = Inr \<lparr>num_attrs = 5000, attr_sizes = replicate 5000 255, tuple_size = 1275000,
            header_size = 25014, num_slots = 4294967295\<rparr> \<and>
   uint (4294967295 :: u32)
     \<noteq> 8 * (uint (1048576 :: u32) - uint (25014 :: u32))
          div (8 * uint (1275000 :: u32) + int (length (replicate 5000 (255 :: u8)))) - 1"
  by (simp add: mk_BlockLayout_def ComputeTupleSize_def HeaderSize_def NumSlots_def
      fold_tuple_size sum_list_replicate del: fold_replicate)

theorem geometry_fits_witness:
  "unat (24 :: u32)
     + (\<Sum>s\<leftarrow>[8, 4 :: u8]. unat (BitmapSize 85595) + unat (85595 :: u32) * unat s)
   \<le> unat (1048576 :: u32)"
proof -
  have mk: "mk_BlockLayout 1048576 2 [8, 4]
     = Inr \<lparr>num_attrs = 2, attr_sizes = [8, 4], tuple_size = 12,
            header_size = 24, num_slots = 85595\<rparr>"
    by (simp add: mk_BlockLayout_def ComputeTupleSize_def HeaderSize_def NumSlots_def)
  from geometry_fits [OF mk] show ?thesis by simp
qed

theorem geometry_fits_counterexample:
  "mk_BlockLayout 1048576 5000 (replicate 5000 255)
     = Inr \<lparr>num_attrs = 5000, attr_sizes = replicate 5000 255, tuple_size = 1275000,
            header_size = 25014, num_slots = 4294967295\<rparr> \<and>
   list_all (\<lambda>s. 1 \<le> unat s) (replicate 5000 (255 :: u8)) \<and>
   1 \<le> unat (1275000 :: u32) \<and> (25014 :: u32) < 1048576 \<and>
   \<not> unat (25014 :: u32)
       + (\<Sum>s\<leftarrow>replicate 5000 (255 :: u8).
            unat (BitmapSize 4294967295) + unat (4294967295 :: u32) * unat s)
     \<le> unat (1048576 :: u32)"
  by (simp add: mk_BlockLayout_def ComputeTupleSize_def HeaderSize_def NumSlots_def
      fold_tuple_size BitmapSize_unat sum_list_replicate list_all_iff del: fold_replicate)

section \<open>Memory and bitmap lemmas\<close>

lemma addr_plus_eq:
  "x < 2 ^ 64 \<Longrightarrow> y < 2 ^ 64 \<Longrightarrow> ((a :: addr) + of_nat x = a + of_nat y) = (x = y)"
  by (simp add: word_of_nat_eq_iff take_bit_nat_eq_self)

lemma unat_div8: "unat ((pos :: u32) div 8) = unat pos div 8"
  by (simp add: unat_div)

lemma unat_mod8: "unat ((pos :: u32) mod 8) = unat pos mod 8"
  by (simp add: unat_mod)

lemma Test_eq:
  "Test h bitmap pos = bit (h (bitmap + of_nat (unat pos div 8))) (unat pos mod 8)"
  by (simp add: Test_def unat_div8 [symmetric] unat_mod8)

lemma load32_cong:
  "h' a = h a \<Longrightarrow> h' (a + 1) = h (a + 1) \<Longrightarrow> h' (a + 2) = h (a + 2)
     \<Longrightarrow> h' (a + 3) = h (a + 3) \<Longrightarrow> load32 h' a = load32 h a"
  by (simp add: load32_def)

lemma bytes_u32:
  "ucast (ucast v :: u8) OR push_bit 8 (ucast (ucast (drop_bit 8 v) :: u8)) OR
     push_bit 16 (ucast (ucast (drop_bit 16 v) :: u8)) OR
     push_bit 24 (ucast (ucast (drop_bit 24 v) :: u8)) = (v :: u32)"
proof (rule bit_word_eqI)
  fix n assume "n < LENGTH(32)"
  then consider "n < 8" | "8 \<le> n" "n < 16" | "16 \<le> n" "n < 24" | "24 \<le> n" "n < 32"
    by fastforce
  then show "bit (ucast (ucast v :: u8) OR push_bit 8 (ucast (ucast (drop_bit 8 v) :: u8)) OR
     push_bit 16 (ucast (ucast (drop_bit 16 v) :: u8)) OR
     push_bit 24 (ucast (ucast (drop_bit 24 v) :: u8)) :: u32) n = bit v n"
  proof cases
    case 1
    then show ?thesis by (simp add: bit_simps)
  next
    case 2
    then show ?thesis by (auto simp: bit_simps)
  next
    case 3
    then show ?thesis by (auto simp: bit_simps)
  next
    case 4
    then show ?thesis by (auto simp: bit_simps)
  qed
qed

lemma load32_store32: "load32 (store32 h a v) a = v"
  by (simp add: load32_def store32_def bytes_u32)

lemma AttrOffets_index_eq:
  "AttrOffets_index h raw c = load32 h (raw + of_nat (12 + 4 * unat c))"
  by (simp add: AttrOffets_index_def AttrOffets_def Block_NumSlots_def add.assoc)

lemma load32_off_cong:
  assumes "\<And>j. j < 4 \<Longrightarrow> h' (raw + of_nat (m + j)) = h (raw + of_nat (m + j))"
  shows "load32 h' (raw + of_nat m) = load32 h (raw + of_nat m)"
proof (rule load32_cong)
  show "h' (raw + of_nat m) = h (raw + of_nat m)" using assms [of 0] by simp
  show "h' (raw + of_nat m + 1) = h (raw + of_nat m + 1)"
    using assms [of 1] by (simp add: ac_simps)
  show "h' (raw + of_nat m + 2) = h (raw + of_nat m + 2)"
    using assms [of 2] by (simp add: ac_simps)
  show "h' (raw + of_nat m + 3) = h (raw + of_nat m + 3)"
    using assms [of 3] by (simp add: ac_simps)
qed

lemma Column_eq: "Column h raw c = raw + of_nat (unat (AttrOffets_index h raw c))"
  by (simp add: Column_def)

section \<open>The example blocks\<close>

lemma example_layout_built: "mk_BlockLayout 1048576 2 [8, 4] = Inr example_layout"
  by (simp add: mk_BlockLayout_def ComputeTupleSize_def HeaderSize_def NumSlots_def
      example_layout_def)

lemma example_layout_fits:
  "unat (header_size example_layout)
     + (\<Sum>s\<leftarrow>[8, 4 :: u8]. unat (BitmapSize (num_slots example_layout))
                            + unat (num_slots example_layout) * unat s)
   \<le> unat (1048576 :: u32)"
  by (simp add: example_layout_def BitmapSize_unat)

lemma two_slot_layout_built: "mk_BlockLayout 23 1 [1] = Inr two_slot_layout"
  by (simp add: mk_BlockLayout_def ComputeTupleSize_def HeaderSize_def NumSlots_def
      two_slot_layout_def)

lemma two_slot_block_bytes:
  "two_slot_block 65548 = 19" "two_slot_block 65549 = 0" "two_slot_block 65550 = 0"
  "two_slot_block 65551 = 0" "two_slot_block 65555 = 0"
  by (simp_all add: two_slot_block_def two_slot_layout_def InitializeRawBlock_def
      AttrOffets_def Block_NumSlots_def store32_def store16_def store8_def BitmapSize_def Let_def)

lemmas two_slot_eval =
  two_slot_block_bytes AttrOffets_index_def AttrOffets_def Block_NumSlots_def Column_def
  ColumnNullBitmap_def MiniBlock_NullBitmap_def PRIMARY_KEY_OFFSET_def load32_def
  Test_def Flip_def Let_def

lemma two_slot_block_bitmap:
  "ColumnNullBitmap two_slot_block 65536 PRIMARY_KEY_OFFSET = 65555"
  "ColumnNullBitmap (two_slot_block(65555 := 3)) 65536 PRIMARY_KEY_OFFSET = 65555"
  by (simp_all add: two_slot_eval)

lemma two_slot_block_Flip:
  "Flip two_slot_block 65555 0 False = (False, two_slot_block)"
  "Flip two_slot_block 65555 1 False = (False, two_slot_block)"
  "Flip (two_slot_block(65555 := 3)) 65555 0 False = (True, two_slot_block(65555 := 2))"
  by (simp_all add: two_slot_eval)

lemma wide_layout_built:
  "mk_BlockLayout 1048576 5000 (replicate 5000 255) = Inr wide_layout"
  by (simp add: mk_BlockLayout_def ComputeTupleSize_def HeaderSize_def NumSlots_def
      fold_tuple_size sum_list_replicate wide_layout_def del: fold_replicate)

section \<open>The allocation loop\<close>

lemma Flip_False_heap: "Flip h bitmap pos e = (False, h') \<Longrightarrow> h' = h"
  by (simp add: Flip_def Let_def split: if_splits)

lemma u32_succ: "(i :: u32) < n \<Longrightarrow> i < i + 1 \<and> unat (i + 1) = unat i + 1"
proof -
  assume "i < n"
  then have "unat i < unat n" by (simp add: word_less_nat_alt)
  with unat_u32_lt [of n] have "unat i + unat (1 :: u32) < 2 ^ LENGTH(32)" by simp
  then have "unat (i + 1) = unat i + 1" by (simp only: unat_add_lem [THEN iffD1] unat_1)
  then show ?thesis by (simp add: word_less_nat_alt)
qed

lemma Allocate_loop_False:
  "Allocate_loop n bitmap h i offset = (False, offset', h') \<Longrightarrow> offset' = offset \<and> h' = h"
proof (induction n bitmap h i offset rule: Allocate_loop.induct)
  case (1 n bitmap h i offset)
  show ?case
  proof (cases "i < n")
    case False
    with "1.prems" show ?thesis by (simp add: Allocate_loop.simps [of n bitmap h i])
  next
    case True
    obtain b h1 where fl: "Flip h bitmap i False = (b, h1)" by (cases "Flip h bitmap i False")
    show ?thesis
    proof (cases b)
      case True
      with \<open>i < n\<close> fl "1.prems" show ?thesis
        by (simp add: Allocate_loop.simps [of n bitmap h i])
    next
      case False
      with fl have h1: "h1 = h" by (simp add: Flip_False_heap)
      from False \<open>i < n\<close> fl "1.prems"
      have "Allocate_loop n bitmap h1 (i + 1) offset = (False, offset', h')"
        by (simp add: Allocate_loop.simps [of n bitmap h i])
      with "1.IH" [OF \<open>i < n\<close> fl [symmetric]] False h1 show ?thesis by simp
    qed
  qed
qed

lemma Allocate_loop_True:
  "Allocate_loop n bitmap h i offset = (True, offset', h') \<Longrightarrow> i \<le> offset' \<and> offset' < n"
proof (induction n bitmap h i offset rule: Allocate_loop.induct)
  case (1 n bitmap h i offset)
  show ?case
  proof (cases "i < n")
    case False
    with "1.prems" show ?thesis by (simp add: Allocate_loop.simps [of n bitmap h i])
  next
    case True
    obtain b h1 where fl: "Flip h bitmap i False = (b, h1)" by (cases "Flip h bitmap i False")
    show ?thesis
    proof (cases b)
      case True
      with \<open>i < n\<close> fl "1.prems" show ?thesis
        by (simp add: Allocate_loop.simps [of n bitmap h i])
    next
      case False
      from False \<open>i < n\<close> fl "1.prems"
      have "Allocate_loop n bitmap h1 (i + 1) offset = (True, offset', h')"
        by (simp add: Allocate_loop.simps [of n bitmap h i])
      with "1.IH" [OF \<open>i < n\<close> fl [symmetric]] False
      have "i + 1 \<le> offset' \<and> offset' < n" by simp
      with u32_succ [OF \<open>i < n\<close>] show ?thesis by (simp add: word_le_nat_alt)
    qed
  qed
qed

text \<open>
  C10. When \<open>Allocate\<close> returns true, the offset it wrote is less than the layout's
  \<open>num_slots\<close>. When it returns false, the \<open>offset\<close> reference is left as it was and
  the memory, hence every bit of the block's bitmaps, is unchanged.
\<close>

theorem allocate_result_contract:
  "Allocate L h block offset = (r, offset', h') \<Longrightarrow>
     (r \<longrightarrow> offset' < num_slots L) \<and> (\<not> r \<longrightarrow> offset' = offset \<and> h' = h)"
  unfolding Allocate_def
  by (cases r) (auto dest: Allocate_loop_True Allocate_loop_False)

lemmas example_eval =
  example_block_def example_layout_def InitializeRawBlock_def
  AttrOffets_index_def AttrOffets_def Block_NumSlots_def Column_def ColumnNullBitmap_def
  MiniBlock_NullBitmap_def PRIMARY_KEY_OFFSET_def
  store32_def store16_def store8_def load32_def BitmapSize_def Let_def

lemma two_slot_block_allocate:
  "Allocate two_slot_layout (two_slot_block(65555 := 3)) 65536 99
     = (True, 0, two_slot_block(65555 := 2))"
  by (simp add: Allocate_def two_slot_block_bitmap two_slot_block_Flip two_slot_layout_def
      Allocate_loop.simps [of _ _ _ 0])

theorem allocate_result_contract_witness:
  "Allocate two_slot_layout (two_slot_block(65555 := 3)) 65536 99
     = (True, 0, two_slot_block(65555 := 2)) \<and>
   (0 :: u32) < num_slots two_slot_layout \<and>
   Allocate two_slot_layout two_slot_block 65536 99 = (False, 99, two_slot_block)"
proof -
  obtain r offset' h'
    where full: "Allocate two_slot_layout two_slot_block 65536 99 = (r, offset', h')"
    by (cases "Allocate two_slot_layout two_slot_block 65536 99")
  have "\<not> r"
    using full
    by (simp add: Allocate_def two_slot_block_bitmap two_slot_block_Flip two_slot_layout_def
        Allocate_loop.simps [of _ _ _ 0] Allocate_loop.simps [of _ _ _ 1]
        Allocate_loop.simps [of _ _ _ 2])
  with allocate_result_contract [OF full] full
  have "Allocate two_slot_layout two_slot_block 65536 99 = (False, 99, two_slot_block)"
    by simp
  with allocate_result_contract [OF two_slot_block_allocate] two_slot_block_allocate
  show ?thesis by simp
qed

section \<open>What the initialization writes\<close>

lemma store8_off:
  assumes "k \<noteq> m" and "k < 2 ^ 64" and "m < 2 ^ 64"
  shows "store8 h (raw + of_nat m) v (raw + of_nat k) = h (raw + of_nat k)"
proof -
  from assms have "raw + of_nat k \<noteq> raw + of_nat m"
    by (simp only: addr_plus_eq not_False_eq_True)
  then show ?thesis by (simp add: store8_def)
qed

lemma store16_off:
  assumes "k < m \<or> m + 2 \<le> k" and "k < 2 ^ 64" and "m + 2 \<le> 2 ^ 64"
  shows "store16 h (raw + of_nat m) v (raw + of_nat k) = h (raw + of_nat k)"
proof -
  have "raw + of_nat k \<noteq> raw + of_nat (m + j)" if "j < 2" for j
    using assms that by (simp only: addr_plus_eq) auto
  from this [of 0] this [of 1] show ?thesis
    by (simp add: store16_def ac_simps)
qed

lemma store32_off:
  assumes "k < m \<or> m + 4 \<le> k" and "k < 2 ^ 64" and "m + 4 \<le> 2 ^ 64"
  shows "store32 h (raw + of_nat m) v (raw + of_nat k) = h (raw + of_nat k)"
proof -
  have "raw + of_nat k \<noteq> raw + of_nat (m + j)" if "j < 4" for j
    using assms that by (simp only: addr_plus_eq) auto
  from this [of 0] this [of 1] this [of 2] this [of 3] show ?thesis
    by (simp add: store32_def ac_simps)
qed

lemma write_attr_offsets_off:
  assumes "k < m \<or> m + 4 * length sizes \<le> k" and "k < 2 ^ 64"
    and "m + 4 * length sizes \<le> 2 ^ 64"
  shows "write_attr_offsets L (raw + of_nat m) off sizes h (raw + of_nat k) = h (raw + of_nat k)"
  using assms
proof (induction sizes arbitrary: m off h)
  case Nil
  show ?case by simp
next
  case (Cons s sizes)
  have p: "raw + of_nat m + 4 = raw + of_nat (m + 4)" by (simp add: add.assoc)
  have "write_attr_offsets L (raw + of_nat (m + 4))
          (off + BitmapSize (num_slots L) + num_slots L * ucast s) sizes
          (store32 h (raw + of_nat m) off) (raw + of_nat k)
        = store32 h (raw + of_nat m) off (raw + of_nat k)"
    using Cons.prems by (intro Cons.IH) auto
  also have "\<dots> = h (raw + of_nat k)"
    using Cons.prems by (intro store32_off) auto
  finally show ?case by (simp only: write_attr_offsets.simps p)
qed

lemma write_attr_sizes_off:
  assumes "k < m \<or> m + length sizes \<le> k" and "k < 2 ^ 64"
    and "m + length sizes \<le> 2 ^ 64"
  shows "write_attr_sizes (raw + of_nat m) sizes h (raw + of_nat k) = h (raw + of_nat k)"
  using assms
proof (induction sizes arbitrary: m h)
  case Nil
  show ?case by simp
next
  case (Cons s sizes)
  have p: "raw + of_nat m + 1 = raw + of_nat (m + 1)" by (simp add: add.assoc)
  have "write_attr_sizes (raw + of_nat (m + 1)) sizes
          (store8 h (raw + of_nat m) s) (raw + of_nat k)
        = store8 h (raw + of_nat m) s (raw + of_nat k)"
    using Cons.prems by (intro Cons.IH) auto
  also have "\<dots> = h (raw + of_nat k)"
    using Cons.prems by (intro store8_off) auto
  finally show ?case by (simp only: write_attr_sizes.simps p)
qed

lemma InitializeRawBlock_eq:
  "InitializeRawBlock h raw L block_id =
     write_attr_sizes (raw + of_nat (14 + 4 * unat (num_attrs L))) (attr_sizes L)
       (store16
          (write_attr_offsets L (raw + of_nat 12) (header_size L) (attr_sizes L)
             (store32 (store32 h (raw + of_nat 0) block_id) (raw + of_nat 8) (num_slots L)))
          (raw + of_nat (12 + 4 * unat (num_attrs L))) (num_attrs L))"
  by (simp add: InitializeRawBlock_def Let_def AttrOffets_def Block_NumSlots_def add.assoc)

lemma InitializeRawBlock_frame:
  assumes len: "length (attr_sizes L) = unat (num_attrs L)"
    and k: "14 + 5 * unat (num_attrs L) \<le> k" "k < 2 ^ 64"
  shows "InitializeRawBlock h raw L block_id (raw + of_nat k) = h (raw + of_nat k)"
proof -
  have n: "unat (num_attrs L) < 65536" by (rule unat_u16_lt)
  let ?N = "unat (num_attrs L)"
  have "InitializeRawBlock h raw L block_id (raw + of_nat k)
      = store16
          (write_attr_offsets L (raw + of_nat 12) (header_size L) (attr_sizes L)
             (store32 (store32 h (raw + of_nat 0) block_id) (raw + of_nat 8) (num_slots L)))
          (raw + of_nat (12 + 4 * ?N)) (num_attrs L) (raw + of_nat k)"
    unfolding InitializeRawBlock_eq using k n len by (intro write_attr_sizes_off) auto
  also have "\<dots> = write_attr_offsets L (raw + of_nat 12) (header_size L) (attr_sizes L)
             (store32 (store32 h (raw + of_nat 0) block_id) (raw + of_nat 8) (num_slots L))
             (raw + of_nat k)"
    using k n by (intro store16_off) auto
  also have "\<dots> = store32 (store32 h (raw + of_nat 0) block_id) (raw + of_nat 8) (num_slots L)
             (raw + of_nat k)"
    using k n len by (intro write_attr_offsets_off) auto
  also have "\<dots> = store32 h (raw + of_nat 0) block_id (raw + of_nat k)"
    using k by (intro store32_off) auto
  also have "\<dots> = h (raw + of_nat k)"
    using k by (intro store32_off) auto
  finally show ?thesis .
qed

lemma write_attr_offsets_read:
  assumes "i < length sizes" and "m + 4 * length sizes \<le> 2 ^ 64"
  shows "load32 (write_attr_offsets L (raw + of_nat m) off sizes h) (raw + of_nat (m + 4 * i))
           = off + sum_list (map (\<lambda>s. BitmapSize (num_slots L) + num_slots L * ucast s)
                               (take i sizes))"
  using assms
proof (induction sizes arbitrary: m off h i)
  case Nil
  then show ?case by simp
next
  case (Cons s sizes)
  have p: "raw + of_nat m + 4 = raw + of_nat (m + 4)" by (simp add: add.assoc)
  let ?h = "store32 h (raw + of_nat m) off"
  let ?off = "off + BitmapSize (num_slots L) + num_slots L * ucast s"
  show ?case
  proof (cases i)
    case 0
    have "load32 (write_attr_offsets L (raw + of_nat (m + 4)) ?off sizes ?h) (raw + of_nat m)
            = load32 ?h (raw + of_nat m)"
    proof (rule load32_off_cong)
      fix j :: nat
      assume "j < 4"
      then show "write_attr_offsets L (raw + of_nat (m + 4)) ?off sizes ?h (raw + of_nat (m + j))
                   = ?h (raw + of_nat (m + j))"
        using Cons.prems by (intro write_attr_offsets_off) auto
    qed
    then show ?thesis
      unfolding 0 by (simp only: write_attr_offsets.simps p load32_store32) simp
  next
    case (Suc i')
    have "load32 (write_attr_offsets L (raw + of_nat (m + 4)) ?off sizes ?h)
            (raw + of_nat (m + 4 + 4 * i'))
          = ?off + sum_list (map (\<lambda>s. BitmapSize (num_slots L) + num_slots L * ucast s)
                               (take i' sizes))"
      using Cons.prems Suc by (intro Cons.IH) auto
    moreover have "m + 4 * i = m + 4 + 4 * i'" unfolding Suc by simp
    ultimately show ?thesis
      unfolding Suc by (simp only: write_attr_offsets.simps p) (simp add: add.assoc)
  qed
qed

lemma InitializeRawBlock_offsets:
  assumes len: "length (attr_sizes L) = unat (num_attrs L)"
    and c: "unat c < unat (num_attrs L)"
  shows "AttrOffets_index (InitializeRawBlock h raw L block_id) raw c
           = header_size L
             + sum_list (map (\<lambda>s. BitmapSize (num_slots L) + num_slots L * ucast s)
                          (take (unat c) (attr_sizes L)))"
proof -
  have n: "unat (num_attrs L) < 65536" by (rule unat_u16_lt)
  let ?N = "unat (num_attrs L)"
  let ?h2 = "store32 (store32 h (raw + of_nat 0) block_id) (raw + of_nat 8) (num_slots L)"
  let ?h3 = "write_attr_offsets L (raw + of_nat 12) (header_size L) (attr_sizes L) ?h2"
  let ?h4 = "store16 ?h3 (raw + of_nat (12 + 4 * ?N)) (num_attrs L)"
  have "load32 (InitializeRawBlock h raw L block_id) (raw + of_nat (12 + 4 * unat c))
          = load32 ?h4 (raw + of_nat (12 + 4 * unat c))"
    unfolding InitializeRawBlock_eq
  proof (rule load32_off_cong)
    fix j :: nat
    assume "j < 4"
    then show "write_attr_sizes (raw + of_nat (14 + 4 * ?N)) (attr_sizes L) ?h4
                 (raw + of_nat (12 + 4 * unat c + j))
               = ?h4 (raw + of_nat (12 + 4 * unat c + j))"
      using c n len by (intro write_attr_sizes_off) auto
  qed
  also have "\<dots> = load32 ?h3 (raw + of_nat (12 + 4 * unat c))"
  proof (rule load32_off_cong)
    fix j :: nat
    assume "j < 4"
    then show "?h4 (raw + of_nat (12 + 4 * unat c + j)) = ?h3 (raw + of_nat (12 + 4 * unat c + j))"
      using c n by (intro store16_off) auto
  qed
  also have "\<dots> = header_size L
             + sum_list (map (\<lambda>s. BitmapSize (num_slots L) + num_slots L * ucast s)
                          (take (unat c) (attr_sizes L)))"
    using c n len by (intro write_attr_offsets_read) auto
  finally show ?thesis by (simp only: AttrOffets_index_eq)
qed

lemma unat_offset_sum:
  fixes a b S :: u32
  assumes "unat a + (\<Sum>s\<leftarrow>xs. unat b + unat S * unat (s :: u8)) < 2 ^ 32"
  shows "unat (a + sum_list (map (\<lambda>s. b + S * ucast s) xs))
           = unat a + (\<Sum>s\<leftarrow>xs. unat b + unat S * unat s)"
  using assms
proof (induction xs arbitrary: a)
  case Nil
  show ?case by simp
next
  case (Cons x xs)
  from Cons.prems have bound: "unat a + (unat b + unat S * unat x) < 2 ^ 32" by simp
  then have "unat S * unat (ucast x :: u32) < 2 ^ LENGTH(32)"
    by (simp add: unat_ucast_u8_u32)
  then have m: "unat (S * ucast x) = unat S * unat x"
    by (simp only: unat_mult_lem [THEN iffD1] unat_ucast_u8_u32)
  from bound m have "unat b + unat (S * ucast x) < 2 ^ LENGTH(32)" by simp
  then have t: "unat (b + S * ucast x) = unat b + unat S * unat x"
    by (simp only: unat_add_lem [THEN iffD1] m)
  from bound t have "unat a + unat (b + S * ucast x) < 2 ^ LENGTH(32)" by simp
  then have a': "unat (a + (b + S * ucast x)) = unat a + (unat b + unat S * unat x)"
    by (simp only: unat_add_lem [THEN iffD1] t)
  have "unat (a + (b + S * ucast x) + sum_list (map (\<lambda>s. b + S * ucast s) xs))
          = unat (a + (b + S * ucast x)) + (\<Sum>s\<leftarrow>xs. unat b + unat S * unat s)"
    using Cons.prems by (intro Cons.IH) (simp add: a')
  then show ?case by (simp add: a' add.assoc)
qed

lemma sum_take_le:
  "(\<Sum>s\<leftarrow>take i xs. f s) \<le> (\<Sum>s\<leftarrow>xs. (f s :: nat))"
proof -
  have "(\<Sum>s\<leftarrow>xs. f s) = (\<Sum>s\<leftarrow>take i xs @ drop i xs. f s)" by simp
  also have "\<dots> = (\<Sum>s\<leftarrow>take i xs. f s) + (\<Sum>s\<leftarrow>drop i xs. f s)"
    by (simp only: map_append sum_list_append)
  finally show ?thesis by simp
qed

text \<open>The offset of a column in an initialized block, when the mini-blocks fit.\<close>

lemma InitializeRawBlock_offsets_unat:
  assumes len: "length (attr_sizes L) = unat (num_attrs L)"
    and c: "unat c < unat (num_attrs L)"
    and fits: "unat (header_size L)
                 + (\<Sum>s\<leftarrow>attr_sizes L. unat (BitmapSize (num_slots L))
                                          + unat (num_slots L) * unat s) < 2 ^ 32"
  shows "unat (AttrOffets_index (InitializeRawBlock h raw L block_id) raw c)
           = unat (header_size L)
             + (\<Sum>s\<leftarrow>take (unat c) (attr_sizes L).
                  unat (BitmapSize (num_slots L)) + unat (num_slots L) * unat s)"
proof -
  have "unat (header_size L)
          + (\<Sum>s\<leftarrow>take (unat c) (attr_sizes L).
               unat (BitmapSize (num_slots L)) + unat (num_slots L) * unat s) < 2 ^ 32"
    using fits
      sum_take_le [of "\<lambda>s. unat (BitmapSize (num_slots L)) + unat (num_slots L) * unat s"
        "unat c" "attr_sizes L"]
    by linarith
  then show ?thesis
    unfolding InitializeRawBlock_offsets [OF len c] by (rule unat_offset_sum)
qed

lemma mk_BlockLayout_wf:
  assumes mk: "mk_BlockLayout B n sizes = Inr L"
    and fits: "unat (header_size L)
                 + (\<Sum>s\<leftarrow>sizes. unat (BitmapSize (num_slots L)) + unat (num_slots L) * unat s)
               \<le> unat B"
  shows "length (attr_sizes L) = unat (num_attrs L)"
    and "unat (header_size L)
           + (\<Sum>s\<leftarrow>attr_sizes L. unat (BitmapSize (num_slots L))
                                    + unat (num_slots L) * unat s) < 2 ^ 32"
    and "unat (header_size L) = 14 + 5 * unat (num_attrs L)"
proof -
  note f = mk_BlockLayout_fields [OF mk]
  show "length (attr_sizes L) = unat (num_attrs L)"
    unfolding f(4) f(5) by (rule ComputeTupleSize_unat(2) [OF f(1)])
  show "unat (header_size L)
           + (\<Sum>s\<leftarrow>attr_sizes L. unat (BitmapSize (num_slots L))
                                    + unat (num_slots L) * unat s) < 2 ^ 32"
    unfolding f(5) using fits unat_u32_lt [of B] by simp
  show "unat (header_size L) = 14 + 5 * unat (num_attrs L)"
    unfolding f(2) f(4) HeaderSize_unat by simp
qed

lemma mk_BlockLayout_nonempty:
  assumes mk: "mk_BlockLayout B n sizes = Inr L"
  shows "0 < unat n"
proof (rule ccontr)
  assume "\<not> 0 < unat n"
  then have n: "n = 0" by (simp add: unat_eq_zero)
  note f = mk_BlockLayout_fields [OF mk]
  from ComputeTupleSize_unat [OF f(1)] n have "unat (tuple_size L) = 0" by simp
  then have "tuple_size L = 0" by (simp add: unat_eq_zero)
  with f(3) n show False by (simp add: NumSlots_def)
qed


lemma write_attr_sizes_read:
  assumes "i < length sizes" and "m + length sizes \<le> 2 ^ 64"
  shows "write_attr_sizes (raw + of_nat m) sizes h (raw + of_nat (m + i)) = sizes ! i"
  using assms
proof (induction sizes arbitrary: m h i)
  case Nil
  then show ?case by simp
next
  case (Cons s sizes)
  have p: "raw + of_nat m + 1 = raw + of_nat (m + 1)" by (simp add: add.assoc)
  let ?h = "store8 h (raw + of_nat m) s"
  show ?case
  proof (cases i)
    case 0
    have "write_attr_sizes (raw + of_nat (m + 1)) sizes ?h (raw + of_nat m)
            = ?h (raw + of_nat m)"
      using Cons.prems by (intro write_attr_sizes_off) auto
    then show ?thesis
      unfolding 0 by (simp only: write_attr_sizes.simps p) (simp add: store8_def)
  next
    case (Suc i')
    have "write_attr_sizes (raw + of_nat (m + 1)) sizes ?h (raw + of_nat (m + 1 + i'))
            = sizes ! i'"
      using Cons.prems Suc by (intro Cons.IH) auto
    moreover have "m + i = m + 1 + i'" unfolding Suc by simp
    ultimately show ?thesis
      unfolding Suc by (simp only: write_attr_sizes.simps p) simp
  qed
qed

text \<open>The size bytes of the header of an initialized block.\<close>

lemma InitializeRawBlock_sizes:
  assumes len: "length (attr_sizes L) = unat (num_attrs L)"
    and i: "i < length (attr_sizes L)"
  shows "InitializeRawBlock h raw L block_id (raw + of_nat (14 + 4 * unat (num_attrs L) + i))
           = attr_sizes L ! i"
proof -
  have "unat (num_attrs L) < 65536" by (rule unat_u16_lt)
  with len have "14 + 4 * unat (num_attrs L) + length (attr_sizes L) \<le> 2 ^ 64" by simp
  with i show ?thesis
    unfolding InitializeRawBlock_eq by (rule write_attr_sizes_read)
qed

section \<open>The initialized block\<close>

lemma wide_block_offsets:
  "AttrOffets_index wide_block 65536 0 = 25014"
  "AttrOffets_index wide_block 65536 1 = 536895671"
  "AttrOffets_index wide_block 65536 8 = 22974"
proof -
  have len: "length (attr_sizes wide_layout) = unat (num_attrs wide_layout)"
    by (simp add: wide_layout_def)
  have c: "unat (0 :: u16) < unat (num_attrs wide_layout)"
    "unat (1 :: u16) < unat (num_attrs wide_layout)"
    "unat (8 :: u16) < unat (num_attrs wide_layout)"
    by (simp_all add: wide_layout_def)
  show "AttrOffets_index wide_block 65536 0 = 25014"
    unfolding wide_block_def InitializeRawBlock_offsets [OF len c(1)]
    by (simp add: wide_layout_def)
  show "AttrOffets_index wide_block 65536 1 = 536895671"
    unfolding wide_block_def InitializeRawBlock_offsets [OF len c(2)]
    by (simp add: wide_layout_def BitmapSize_def)
  show "AttrOffets_index wide_block 65536 8 = 22974"
    unfolding wide_block_def InitializeRawBlock_offsets [OF len c(3)]
    by (simp add: wide_layout_def BitmapSize_def sum_list_replicate)
qed

lemma wide_block_size_byte: "wide_block 88510 = 255"
proof -
  have len: "length (attr_sizes wide_layout) = unat (num_attrs wide_layout)"
    by (simp add: wide_layout_def)
  have i: "2960 < length (attr_sizes wide_layout)" by (simp add: wide_layout_def)
  from InitializeRawBlock_sizes [OF len i, of "\<lambda>a. 0" 65536 7]
  show ?thesis by (simp add: wide_block_def wide_layout_def)
qed

text \<open>
  C6 (as amended). In a block initialized for a layout whose header and mini-blocks
  fit in the block, the first mini-block starts at \<open>header_size\<close>, for every column \<open>c\<close>
  that has a successor
  \<open>attr_offsets[c + 1] = attr_offsets[c] + ceil(num_slots / 8) + num_slots * attr_sizes[c]\<close>
  (the mini-blocks are contiguous in attribute order), and the value array of every
  column starts \<open>ceil(num_slots / 8)\<close> bytes after the column's null bitmap.
\<close>

theorem miniblocks_contiguous:
  assumes mk: "mk_BlockLayout B n sizes = Inr L"
    and fits: "unat (header_size L)
                 + (\<Sum>s\<leftarrow>sizes. unat (BitmapSize (num_slots L)) + unat (num_slots L) * unat s)
               \<le> unat B"
  shows "AttrOffets_index (InitializeRawBlock h raw L block_id) raw 0 = header_size L \<and>
         (unat c + 1 < unat n \<longrightarrow>
            unat (AttrOffets_index (InitializeRawBlock h raw L block_id) raw (c + 1))
              = unat (AttrOffets_index (InitializeRawBlock h raw L block_id) raw c)
                + unat (BitmapSize (num_slots L))
                + unat (num_slots L) * unat (sizes ! unat c)) \<and>
         ColumnStart L (InitializeRawBlock h raw L block_id) raw c'
           = ColumnNullBitmap (InitializeRawBlock h raw L block_id) raw c'
             + of_nat (unat (BitmapSize (num_slots L)))"
proof -
  note f = mk_BlockLayout_fields [OF mk]
  note wf = mk_BlockLayout_wf [OF mk fits]
  let ?h = "InitializeRawBlock h raw L block_id"
  let ?g = "\<lambda>s. unat (BitmapSize (num_slots L)) + unat (num_slots L) * unat s"
  have c0: "unat (0 :: u16) < unat (num_attrs L)"
    using mk_BlockLayout_nonempty [OF mk] by (simp add: f(4))
  have first: "AttrOffets_index ?h raw 0 = header_size L"
    unfolding InitializeRawBlock_offsets [OF wf(1) c0] by simp
  have "next": "unat (AttrOffets_index ?h raw (c + 1))
      = unat (AttrOffets_index ?h raw c)
        + unat (BitmapSize (num_slots L)) + unat (num_slots L) * unat (sizes ! unat c)"
    if c: "unat c + 1 < unat n"
  proof -
    from c have cc: "unat c < unat (num_attrs L)" by (simp add: f(4))
    have "unat c + unat (1 :: u16) < 2 ^ LENGTH(16)"
      using c unat_u16_lt [of n] by simp
    then have c1: "unat (c + 1) = unat c + 1"
      by (simp only: unat_add_lem [THEN iffD1] unat_1)
    with c have cs: "unat (c + 1) < unat (num_attrs L)" by (simp add: f(4))
    have len: "unat c < length sizes" using cc wf(1) by (simp add: f(5))
    have "unat (AttrOffets_index ?h raw (c + 1))
            = unat (header_size L) + (\<Sum>s\<leftarrow>take (Suc (unat c)) sizes. ?g s)"
      unfolding InitializeRawBlock_offsets_unat [OF wf(1) cs wf(2)] c1 f(5) by simp
    also have "\<dots> = unat (header_size L) + (\<Sum>s\<leftarrow>take (unat c) sizes. ?g s)
                      + ?g (sizes ! unat c)"
      by (simp add: take_Suc_conv_app_nth [OF len])
    also have "\<dots> = unat (AttrOffets_index ?h raw c) + ?g (sizes ! unat c)"
      unfolding InitializeRawBlock_offsets_unat [OF wf(1) cc wf(2)] f(5) by simp
    finally show ?thesis by simp
  qed
  have start: "ColumnStart L ?h raw c'
      = ColumnNullBitmap ?h raw c' + of_nat (unat (BitmapSize (num_slots L)))"
    by (simp add: ColumnStart_def ColumnNullBitmap_def MiniBlock_ColumnStart_def
        MiniBlock_NullBitmap_def)
  from first "next" start show ?thesis by (intro conjI impI)
qed

theorem miniblocks_contiguous_witness:
  "mk_BlockLayout 1048576 2 [8, 4] = Inr example_layout \<and>
   unat (0 :: u16) + 1 < unat (2 :: u16) \<and>
   AttrOffets_index example_block 65536 0 = header_size example_layout \<and>
   unat (AttrOffets_index example_block 65536 (0 + 1))
     = unat (AttrOffets_index example_block 65536 0)
       + unat (BitmapSize (num_slots example_layout))
       + unat (num_slots example_layout) * unat ([8, 4 :: u8] ! unat (0 :: u16)) \<and>
   ColumnStart example_layout example_block 65536 1
     = ColumnNullBitmap example_block 65536 1
       + of_nat (unat (BitmapSize (num_slots example_layout)))"
proof -
  have c: "unat (0 :: u16) + 1 < unat (2 :: u16)" by simp
  show ?thesis
    using example_layout_built c
      miniblocks_contiguous [OF example_layout_built example_layout_fits,
        of "\<lambda>a. 0" 65536 7 0 1]
    unfolding example_block_def by (intro conjI) simp_all
qed

text \<open>
  The claim as stated, for every initialized block, fails on the block of 5000
  attributes of 255 bytes: \<open>num_slots_\<close> is \<open>4294967295\<close>, the offsets are computed in
  \<open>uint32_t\<close>, and the offset of column 1 is \<open>536895671\<close>, not
  \<open>25014 + 536870912 + 4294967295 * 255\<close>.
\<close>

theorem miniblocks_contiguous_counterexample:
  "mk_BlockLayout 1048576 5000 (replicate 5000 255) = Inr wide_layout \<and>
   unat (0 :: u16) + 1 < unat (5000 :: u16) \<and>
   AttrOffets_index wide_block 65536 0 = 25014 \<and>
   AttrOffets_index wide_block 65536 (0 + 1) = 536895671 \<and>
   unat (AttrOffets_index wide_block 65536 (0 + 1))
     \<noteq> unat (AttrOffets_index wide_block 65536 0)
       + unat (BitmapSize (num_slots wide_layout))
       + unat (num_slots wide_layout) * unat (replicate 5000 (255 :: u8) ! unat (0 :: u16))"
  by (simp add: wide_layout_built wide_block_offsets wide_layout_def BitmapSize_unat)

lemma div8_less_ceil: "p < S \<Longrightarrow> p div 8 < (S + 7) div 8" for p S :: nat
proof -
  assume "p < S"
  then have "p + 8 \<le> S + 7" by simp
  then have "(p + 8) div 8 \<le> (S + 7) div 8" by (rule div_le_mono)
  then show ?thesis by simp
qed

lemma bitmap_byte_in_block:
  assumes c: "i < length sizes" and pos: "p < S"
  shows "(\<Sum>s\<leftarrow>take i sizes. (S + 7) div 8 + S * unat (s :: u8)) + p div 8
           < (\<Sum>s\<leftarrow>sizes. (S + 7) div 8 + S * unat s)"
proof -
  let ?g = "\<lambda>s :: u8. (S + 7) div 8 + S * unat s"
  have "(\<Sum>s\<leftarrow>take i sizes. ?g s) + p div 8 < (\<Sum>s\<leftarrow>take i sizes. ?g s) + ?g (sizes ! i)"
    using div8_less_ceil [OF pos] by simp
  also have "\<dots> = (\<Sum>s\<leftarrow>take (Suc i) sizes. ?g s)"
    by (simp add: take_Suc_conv_app_nth [OF c])
  also have "\<dots> \<le> (\<Sum>s\<leftarrow>sizes. ?g s)" by (rule sum_take_le)
  finally show ?thesis .
qed

lemma InitializeRawBlock_Test:
  assumes mk: "mk_BlockLayout B n sizes = Inr L"
    and fits: "unat (header_size L)
                 + (\<Sum>s\<leftarrow>sizes. unat (BitmapSize (num_slots L)) + unat (num_slots L) * unat s)
               \<le> unat B"
    and zero: "\<forall>k < unat B. h (raw + of_nat k) = 0"
    and c: "c < n"
    and pos: "pos < num_slots L"
  shows "\<not> Test (InitializeRawBlock h raw L block_id)
             (ColumnNullBitmap (InitializeRawBlock h raw L block_id) raw c) pos"
proof -
  note f = mk_BlockLayout_fields [OF mk]
  note wf = mk_BlockLayout_wf [OF mk fits]
  let ?h = "InitializeRawBlock h raw L block_id"
  let ?S = "unat (num_slots L)"
  let ?g = "\<lambda>s :: u8. (?S + 7) div 8 + ?S * unat s"
  let ?off = "unat (AttrOffets_index ?h raw c)"
  let ?k = "?off + unat pos div 8"
  from c have cc: "unat c < unat (num_attrs L)" by (simp add: f(4) word_less_nat_alt)
  with wf(1) have ci: "unat c < length sizes" by (simp add: f(5))
  from pos have p: "unat pos < ?S" by (simp add: word_less_nat_alt)
  have off: "?off = unat (header_size L) + (\<Sum>s\<leftarrow>take (unat c) sizes. ?g s)"
    unfolding InitializeRawBlock_offsets_unat [OF wf(1) cc wf(2)] f(5) BitmapSize_unat ..
  have "?k < unat (header_size L) + (\<Sum>s\<leftarrow>sizes. ?g s)"
    unfolding off using bitmap_byte_in_block [OF ci p] by simp
  also have "\<dots> \<le> unat B" using fits by (simp only: BitmapSize_unat)
  finally have kB: "?k < unat B" .
  with unat_u32_lt [of B] have k64: "?k < 2 ^ 64" by simp
  have "14 + 5 * unat (num_attrs L) \<le> ?k" unfolding off wf(3) by simp
  then have "?h (raw + of_nat ?k) = h (raw + of_nat ?k)"
    using k64 by (intro InitializeRawBlock_frame wf(1))
  also have "\<dots> = 0" using zero kB by blast
  finally have "?h (raw + of_nat ?off + of_nat (unat pos div 8)) = 0"
    by (simp add: add.assoc)
  then show ?thesis
    by (simp only: Test_eq ColumnNullBitmap_def MiniBlock_NullBitmap_def Column_eq) simp
qed

text \<open>
  C7 (as amended). After the initialization of a zero-filled block for a layout whose
  header and mini-blocks fit in the block, \<open>AccessWithNullCheck\<close> returns \<open>nullptr\<close>
  for every column and every slot in range.
\<close>

theorem fresh_block_all_null:
  assumes mk: "mk_BlockLayout B n sizes = Inr L"
    and fits: "unat (header_size L)
                 + (\<Sum>s\<leftarrow>sizes. unat (BitmapSize (num_slots L)) + unat (num_slots L) * unat s)
               \<le> unat B"
    and zero: "\<forall>k < unat B. h (raw + of_nat k) = 0"
    and c: "c < n"
    and pos: "pos < num_slots L"
  shows "AccessWithNullCheck L (InitializeRawBlock h raw L block_id) raw c pos = Inr None"
  using InitializeRawBlock_Test [OF assms] by (simp add: AccessWithNullCheck_def)

theorem fresh_block_all_null_witness:
  "mk_BlockLayout 1048576 2 [8, 4] = Inr example_layout \<and>
   (1 :: u16) < 2 \<and> (3 :: u32) < num_slots example_layout \<and>
   AccessWithNullCheck example_layout example_block 65536 1 3 = Inr None"
proof -
  have zero: "\<forall>k < unat (1048576 :: u32). (\<lambda>a :: addr. 0 :: u8) (65536 + of_nat k) = 0"
    by simp
  have c: "(1 :: u16) < 2" by simp
  have pos: "(3 :: u32) < num_slots example_layout" by (simp add: example_layout_def)
  show ?thesis
    using example_layout_built c pos
      fresh_block_all_null [OF example_layout_built example_layout_fits zero c pos,
        where block_id = 7]
    unfolding example_block_def by (intro conjI)
qed

text \<open>
  The claim as stated, for every zero-filled block that is initialized, fails on the
  block of 5000 attributes of 255 bytes: the offset of column 8 is \<open>22974\<close> in
  \<open>uint32_t\<close>, inside the header, where the initialization has written the size 255 of
  an attribute; bit 0 of that byte is set, and \<open>AccessWithNullCheck\<close> for column 8 and
  slot 0 returns a pointer.
\<close>

theorem fresh_block_all_null_counterexample:
  "mk_BlockLayout 1048576 5000 (replicate 5000 255) = Inr wide_layout \<and>
   (8 :: u16) < 5000 \<and> (0 :: u32) < num_slots wide_layout \<and>
   AttrOffets_index wide_block 65536 8 = 22974 \<and>
   wide_block (65536 + 22974) = 255 \<and>
   AccessWithNullCheck wide_layout wide_block 65536 8 0 = Inr (Some 536959422) \<and>
   AccessWithNullCheck wide_layout wide_block 65536 8 0 \<noteq> Inr None"
  by (simp add: wide_layout_built wide_block_offsets wide_block_size_byte
      AccessWithNullCheck_def attr_offset_def ColumnStart_def MiniBlock_ColumnStart_def
      ColumnNullBitmap_def MiniBlock_NullBitmap_def Column_def Test_def BitmapSize_def
      wide_layout_def)

section \<open>The header accessors\<close>

text \<open>
  C8 (the claim fails on the code). In the example block the attribute count 2 is
  stored at \<open>0x10014\<close>, right after the two offsets, and the sizes 8 and 4 after it.
  \<open>NumAttrs\<close> does not address that field: it returns the 32-bit value stored there,
  \<open>0x04080002\<close>, as the address, where the memory holds 0 and not the count; and
  \<open>AttrSizes\<close> returns the address 1, the value read there plus 1, not \<open>0x10016\<close>.
\<close>

theorem header_accessors_example:
  "AttrOffets 65536 + 4 * ucast (num_attrs example_layout) = 65556 \<and>
   load16 example_block 65556 = num_attrs example_layout \<and>
   example_block 65558 = 8 \<and> example_block 65559 = 4 \<and>
   NumAttrs example_block example_layout 65536 = 67633154 \<and>
   load16 example_block (NumAttrs example_block example_layout 65536) = 0 \<and>
   AttrSizes example_block example_layout 65536 = 1"
  by (simp add: example_eval NumAttrs_def AttrSizes_def load16_def)

end
